theory Spec2Isabelle
  imports Complex_Main
begin

section \<open>Exceptions and mutable state\<close>

text \<open>
  The module \<^verbatim>\<open>yellowbrick/regressor.py\<close> consists of methods that mutate the
  visualizer object and the plotting backend and that may raise. A method is modelled as a
  function from the state before the call to the pair of its outcome (\<open>Inl\<close> the
  exception raised, \<open>Inr\<close> the value returned) and the state after the call; the state
  after a raise is the state reached when the exception left the method, as in Python.
\<close>

datatype error =
    YellowbrickTypeError string
  | AttributeError string
  | KeyError string
  | ValueError string

text \<open>
  \<open>AttributeError a\<close> is the failure of looking up attribute \<open>a\<close> on \<^verbatim>\<open>None\<close>;
  \<open>KeyError k\<close> is the failure of \<^verbatim>\<open>d[k]\<close> on a dict without key \<open>k\<close>.
\<close>

type_synonym ('s, 'r) prog = "'s \<Rightarrow> (error + 'r) \<times> 's"

definition returnE :: "'r \<Rightarrow> ('s, 'r) prog" where
  "returnE x = (\<lambda>s. (Inr x, s))"

definition raiseE :: "error \<Rightarrow> ('s, 'r) prog" where
  "raiseE e = (\<lambda>s. (Inl e, s))"

definition liftE :: "error + 'r \<Rightarrow> ('s, 'r) prog" where
  "liftE x = (\<lambda>s. (x, s))"

definition bindE :: "('s, 'q) prog \<Rightarrow> ('q \<Rightarrow> ('s, 'r) prog) \<Rightarrow> ('s, 'r) prog" where
  "bindE m f = (\<lambda>s. case m s of (Inl e, s') \<Rightarrow> (Inl e, s') | (Inr x, s') \<Rightarrow> f x s')"

section \<open>The plotting backend\<close>

text \<open>
  The Surface is a matplotlib Axes object, reached through a reference. Only what
  \<^verbatim>\<open>regressor.py\<close> asks of it is recorded: the scatter marks with their colour, size
  and opacity, the lines, the axis limits, the title and the axis labels.
\<close>

type_synonym ref = nat

type_synonym color = string

record 'a mark =
  mark_x :: 'a
  mark_y :: 'a
  mark_c :: color
  mark_s :: "nat option"
  mark_alpha :: "real option"

datatype 'a line =
    BestFitLine "'a list" "'a list" string string nat color
  | HLine int int int

record 'a surface =
  marks :: "'a mark list"
  lines :: "'a line list"
  xlim :: "('a \<times> 'a) option"
  ylim :: "('a \<times> 'a) option"
  title :: "string option"
  xlabel :: "string option"
  ylabel :: "string option"

definition blank_surface :: "'a surface" where
  "blank_surface = \<lparr>marks = [], lines = [], xlim = None, ylim = None,
                      title = None, xlabel = None, ylabel = None\<rparr>"

text \<open>
  \<^verbatim>\<open>ax.scatter(x, y, c=c, s=s, alpha=alpha)\<close>: one mark per sample; matplotlib raises
  \<^verbatim>\<open>ValueError\<close> when the two series differ in size. An option left out of the call is
  \<open>None\<close>.
\<close>

definition new_marks :: "'a list \<Rightarrow> 'a list \<Rightarrow> color \<Rightarrow> nat option \<Rightarrow> real option \<Rightarrow> 'a mark list" where
  "new_marks xs ys c s alpha =
     map (\<lambda>(x, y). \<lparr>mark_x = x, mark_y = y, mark_c = c, mark_s = s, mark_alpha = alpha\<rparr>) (zip xs ys)"

definition scatter ::
  "'a list \<Rightarrow> 'a list \<Rightarrow> color \<Rightarrow> nat option \<Rightarrow> real option \<Rightarrow> 'a surface \<Rightarrow> error + 'a surface" where
  "scatter xs ys c s alpha S =
     (if length xs \<noteq> length ys then Inl (ValueError ''x and y must be the same size'')
      else Inr (S\<lparr>marks := marks S @ new_marks xs ys c s alpha\<rparr>))"

definition set_xlim :: "'a \<Rightarrow> 'a \<Rightarrow> 'a surface \<Rightarrow> error + 'a surface" where
  "set_xlim lo hi S = Inr (S\<lparr>xlim := Some (lo, hi)\<rparr>)"

definition set_ylim :: "'a \<Rightarrow> 'a \<Rightarrow> 'a surface \<Rightarrow> error + 'a surface" where
  "set_ylim lo hi S = Inr (S\<lparr>ylim := Some (lo, hi)\<rparr>)"

definition set_title :: "string \<Rightarrow> 'a surface \<Rightarrow> error + 'a surface" where
  "set_title t S = Inr (S\<lparr>title := Some t\<rparr>)"

definition set_ylabel :: "string \<Rightarrow> 'a surface \<Rightarrow> error + 'a surface" where
  "set_ylabel t S = Inr (S\<lparr>ylabel := Some t\<rparr>)"

definition hlines :: "int \<Rightarrow> int \<Rightarrow> int \<Rightarrow> 'a surface \<Rightarrow> error + 'a surface" where
  "hlines y xmin xmax S = Inr (S\<lparr>lines := lines S @ [HLine y xmin xmax]\<rparr>)"

text \<open>
  The module-level state of \<^verbatim>\<open>matplotlib.pyplot\<close>: the Axes objects that exist, the
  current Axes if there is one, and the number of times \<^verbatim>\<open>plt.show()\<close> has run.
  \<^verbatim>\<open>plt.gca()\<close> returns the current Axes and creates one when there is none;
  \<^verbatim>\<open>plt.xlabel(s)\<close> is \<^verbatim>\<open>plt.gca().set_xlabel(s)\<close>.
\<close>

record 'a pyplot =
  axes :: "ref \<Rightarrow> 'a surface"
  n_axes :: nat
  current :: "ref option"
  show_count :: nat

definition gca :: "'a pyplot \<Rightarrow> ref \<times> 'a pyplot" where
  "gca w =
     (case current w of
        Some r \<Rightarrow> (r, w)
      | None \<Rightarrow> (n_axes w,
                 w\<lparr>axes := (axes w)(n_axes w := blank_surface),
                   n_axes := Suc (n_axes w),
                   current := Some (n_axes w)\<rparr>))"

definition plt_xlabel :: "string \<Rightarrow> 'a pyplot \<Rightarrow> 'a pyplot" where
  "plt_xlabel t w =
     (case gca w of (r, w') \<Rightarrow> w'\<lparr>axes := (axes w')(r := (axes w' r)\<lparr>xlabel := Some t\<rparr>)\<rparr>)"

definition plt_show :: "'a pyplot \<Rightarrow> 'a pyplot" where
  "plt_show w = w\<lparr>show_count := Suc (show_count w)\<rparr>"

section \<open>Numeric series\<close>

text \<open>
  A series is a one-dimensional array, modelled as the list of its elements. The element
  type is left open; the methods use its order (\<^verbatim>\<open>min\<close>, \<^verbatim>\<open>max\<close>), its
  subtraction, its addition and its \<open>1\<close>, and nothing is assumed of them.
  \<^verbatim>\<open>y.min()\<close> and \<^verbatim>\<open>y.max()\<close> raise \<^verbatim>\<open>ValueError\<close> on an empty array.
  \<^verbatim>\<open>a - b\<close> is elementwise; a one-element array is broadcast against the other, and
  any other pair of different lengths raises \<^verbatim>\<open>ValueError\<close>.
\<close>

fun amin :: "'a::ord list \<Rightarrow> error + 'a" where
  "amin [] = Inl (ValueError ''zero-size array to reduction operation minimum which has no identity'')"
| "amin (x # xs) = Inr (fold min xs x)"

fun amax :: "'a::ord list \<Rightarrow> error + 'a" where
  "amax [] = Inl (ValueError ''zero-size array to reduction operation maximum which has no identity'')"
| "amax (x # xs) = Inr (fold max xs x)"

definition array_sub :: "'a::minus list \<Rightarrow> 'a list \<Rightarrow> error + 'a list" where
  "array_sub xs ys =
     (if length xs = length ys then Inr (map (\<lambda>(x, y). x - y) (zip xs ys))
      else if length xs = 1 then Inr (map (\<lambda>y. hd xs - y) ys)
      else if length ys = 1 then Inr (map (\<lambda>x. x - hd ys) xs)
      else Inl (ValueError ''operands could not be broadcast together''))"

section \<open>Estimators and visualizers\<close>

text \<open>
  The estimator is an external object with a class name, a learned state and the two
  methods \<^verbatim>\<open>fit(X, y)\<close> and \<^verbatim>\<open>predict(X)\<close>; both may raise, and \<^verbatim>\<open>fit\<close>
  replaces the learned state.
\<close>

record ('m, 'x, 'a) estimator =
  est_name :: string
  est_model :: 'm
  est_fit :: "'m \<Rightarrow> 'x \<Rightarrow> 'a list \<Rightarrow> error + 'm"
  est_predict :: "'m \<Rightarrow> 'x \<Rightarrow> error + 'a list"

text \<open>
  The attributes of a visualizer object: \<^verbatim>\<open>self.estimator\<close>, \<^verbatim>\<open>self.name\<close>,
  \<^verbatim>\<open>self.ax\<close> (\<open>None\<close> is Python's \<^verbatim>\<open>None\<close>) and the dict \<^verbatim>\<open>self.colors\<close>.
\<close>

record ('m, 'x, 'a) visualizer =
  estimator :: "('m, 'x, 'a) estimator"
  name :: string
  ax :: "ref option"
  colors :: "string \<rightharpoonup> color"

text \<open>
  The keyword arguments of a constructor: the \<^verbatim>\<open>ax\<close> option and the remaining
  options, which are the colour overrides.
\<close>

record kwargs =
  kw_ax :: "ref option"
  kw_opts :: "string \<rightharpoonup> color"

text \<open>\<^verbatim>\<open>kwargs.pop(key, default)\<close>, for its value.\<close>

definition kwargs_pop :: "(string \<rightharpoonup> 'v) \<Rightarrow> string \<Rightarrow> 'v \<Rightarrow> 'v" where
  "kwargs_pop kw k d = (case kw k of None \<Rightarrow> d | Some v \<Rightarrow> v)"

type_synonym ('m, 'x, 'a) self_state = "('m, 'x, 'a) visualizer \<times> 'a pyplot"

subsection \<open>Statements shared by the methods\<close>

text \<open>\<^verbatim>\<open>if self.ax is None: self.ax = plt.gca()\<close>\<close>

definition acquire_ax :: "(('m, 'x, 'a) self_state, unit) prog" where
  "acquire_ax = (\<lambda>(v, w).
     case ax v of
       None \<Rightarrow> (case gca w of (r, w') \<Rightarrow> (Inr (), (v\<lparr>ax := Some r\<rparr>, w')))
     | Some r \<Rightarrow> (Inr (), (v, w)))"

text \<open>
  \<^verbatim>\<open>self.ax.meth(args)\<close>: the attribute lookup on \<^verbatim>\<open>None\<close> raises first; then
  the arguments are evaluated, which may raise; then the Axes object behind the reference
  is updated.
\<close>

definition ax_call_args ::
  "string \<Rightarrow> error + 'b \<Rightarrow> ('b \<Rightarrow> 'a surface \<Rightarrow> error + 'a surface) \<Rightarrow>
   (('m, 'x, 'a) self_state, unit) prog" where
  "ax_call_args meth args f = (\<lambda>(v, w).
     case ax v of
       None \<Rightarrow> (Inl (AttributeError meth), (v, w))
     | Some r \<Rightarrow>
         (case args of
            Inl e \<Rightarrow> (Inl e, (v, w))
          | Inr b \<Rightarrow>
              (case f b (axes w r) of
                 Inl e \<Rightarrow> (Inl e, (v, w))
               | Inr S \<Rightarrow> (Inr (), (v, w\<lparr>axes := (axes w)(r := S)\<rparr>)))))"

definition ax_call ::
  "string \<Rightarrow> ('a surface \<Rightarrow> error + 'a surface) \<Rightarrow> (('m, 'x, 'a) self_state, unit) prog" where
  "ax_call meth f = ax_call_args meth (Inr ()) (\<lambda>_. f)"

text \<open>\<^verbatim>\<open>self.colors[key]\<close>\<close>

definition colors_get :: "string \<Rightarrow> (('m, 'x, 'a) self_state, color) prog" where
  "colors_get k = (\<lambda>(v, w).
     case colors v k of None \<Rightarrow> (Inl (KeyError k), (v, w)) | Some c \<Rightarrow> (Inr c, (v, w)))"

text \<open>\<^verbatim>\<open>self.ax\<close>, read as a value.\<close>

definition get_ax :: "(('m, 'x, 'a) self_state, ref option) prog" where
  "get_ax = (\<lambda>(v, w). (Inr (ax v), (v, w)))"

text \<open>A call of a \<^verbatim>\<open>pyplot\<close> function.\<close>

definition plt_call :: "('a pyplot \<Rightarrow> 'a pyplot) \<Rightarrow> (('m, 'x, 'a) self_state, unit) prog" where
  "plt_call f = (\<lambda>(v, w). (Inr (), (v, f w)))"

text \<open>\<^verbatim>\<open>self.name\<close>, read as a value.\<close>

definition get_name :: "(('m, 'x, 'a) self_state, string) prog" where
  "get_name = (\<lambda>(v, w). (Inr (name v), (v, w)))"

text \<open>A routine that works on the \<^verbatim>\<open>pyplot\<close> state alone, called from a method.\<close>

definition in_plt :: "('a pyplot, 'r) prog \<Rightarrow> (('m, 'x, 'a) self_state, 'r) prog" where
  "in_plt m = (\<lambda>(v, w). case m w of (res, w') \<Rightarrow> (res, (v, w')))"

text \<open>The pair \<^verbatim>\<open>(y.min()-1, y.max()+1)\<close>, evaluated left to right.\<close>

definition padded_limits :: "'a::{ord,minus,plus,one} list \<Rightarrow> error + 'a \<times> 'a" where
  "padded_limits y =
     (case amin y of
        Inl e \<Rightarrow> Inl e
      | Inr lo \<Rightarrow> (case amax y of Inl e \<Rightarrow> Inl e | Inr hi \<Rightarrow> Inr (lo - 1, hi + 1)))"

subsection \<open>Code of the repository outside \<^verbatim>\<open>regressor.py\<close>\<close>

text \<open>
  Modelled from the spec: \<^verbatim>\<open>ScoreVisualizer.__init__\<close> of \<^verbatim>\<open>base.py\<close> (with
  \<^verbatim>\<open>get_model_name\<close> of \<^verbatim>\<open>utils.py\<close>) is not among the sources. The spec: the
  generic constructor stores the estimator and derives the display name, which equals the
  estimator's class name; the Surface reference is absent unless supplied; construction
  succeeds.
\<close>

definition get_model_name :: "('m, 'x, 'a) estimator \<Rightarrow> string" where
  "get_model_name model = est_name model"

definition ScoreVisualizer_init ::
  "('m, 'x, 'a) estimator \<Rightarrow> kwargs \<Rightarrow> ('a pyplot, ('m, 'x, 'a) visualizer) prog" where
  "ScoreVisualizer_init model kw =
     returnE \<lparr>estimator = model, name = get_model_name model, ax = kw_ax kw, colors = Map.empty\<rparr>"

text \<open>
  Modelled from the spec: \<^verbatim>\<open>ScoreVisualizer.fit\<close> and \<^verbatim>\<open>ScoreVisualizer.predict\<close>
  of \<^verbatim>\<open>base.py\<close> are not among the sources. The spec: the base fit invokes estimator
  training on \<open>(X, y)\<close>; \<^verbatim>\<open>self.predict(X)\<close> is \<^verbatim>\<open>estimator.predict(X)\<close>.
\<close>

definition ScoreVisualizer_fit ::
  "'x \<Rightarrow> 'a list \<Rightarrow> (('m, 'x, 'a) self_state, unit) prog" where
  "ScoreVisualizer_fit X y = (\<lambda>(v, w).
     case est_fit (estimator v) (est_model (estimator v)) X y of
       Inl e \<Rightarrow> (Inl e, (v, w))
     | Inr m \<Rightarrow> (Inr (), (v\<lparr>estimator := (estimator v)\<lparr>est_model := m\<rparr>\<rparr>, w)))"

definition ScoreVisualizer_predict :: "'x \<Rightarrow> (('m, 'x, 'a) self_state, 'a list) prog" where
  "ScoreVisualizer_predict X = (\<lambda>(v, w).
     (est_predict (estimator v) (est_model (estimator v)) X, (v, w)))"

text \<open>
  Modelled from the spec: \<^verbatim>\<open>draw_best_fit\<close> of \<^verbatim>\<open>bestfit.py\<close> is not among the
  sources. The spec: given two equal-length numeric series, a surface, a fit kind and
  stroke style parameters, it fits a trend line to the series and draws it. The line is
  recorded with the series it was fitted to, the fit kind and the stroke style. The spec
  gives the helper a surface; called without one it is modelled as failing like any call
  on a missing surface.
\<close>

definition draw_best_fit ::
  "'a list \<Rightarrow> 'a list \<Rightarrow> ref option \<Rightarrow> string \<Rightarrow> string \<Rightarrow> nat \<Rightarrow> color \<Rightarrow> ('a pyplot, unit) prog" where
  "draw_best_fit X y a kind ls lw c = (\<lambda>w.
     case a of
       None \<Rightarrow> (Inl (AttributeError ''plot''), w)
     | Some r \<Rightarrow>
         if length X \<noteq> length y then (Inl (ValueError ''X and y must have same length''), w)
         else (Inr (), w\<lparr>axes := (axes w)
                 (r := (axes w r)\<lparr>lines := lines (axes w r) @ [BestFitLine X y kind ls lw c]\<rparr>)\<rparr>))"

section \<open>\<^verbatim>\<open>RegressionScoreVisualizer\<close>\<close>

text \<open>
  \<^verbatim>\<open>isregressor\<close> of \<^verbatim>\<open>utils.py\<close> is not among the sources; the constructors take
  the predicate as a parameter. A constructor works on the \<^verbatim>\<open>pyplot\<close> state and
  returns the new object.
\<close>

definition RegressionScoreVisualizer_init ::
  "(('m, 'x, 'a) estimator \<Rightarrow> bool) \<Rightarrow> ('m, 'x, 'a) estimator \<Rightarrow> kwargs \<Rightarrow>
   ('a pyplot, ('m, 'x, 'a) visualizer) prog" where
  "RegressionScoreVisualizer_init isregressor model kw =
     (if \<not> isregressor model
      then raiseE (YellowbrickTypeError
             ''This estimator is not a regressor; try a classifier or clustering score visualizer instead!'')
      else ScoreVisualizer_init model kw)"

section \<open>\<^verbatim>\<open>PredictionError\<close>\<close>

definition PredictionError_init ::
  "(('m, 'x, 'a) estimator \<Rightarrow> bool) \<Rightarrow> ('m, 'x, 'a) estimator \<Rightarrow> kwargs \<Rightarrow>
   ('a pyplot, ('m, 'x, 'a) visualizer) prog" where
  "PredictionError_init isregressor model kw =
     bindE (RegressionScoreVisualizer_init isregressor model kw) (\<lambda>self.
     returnE (self\<lparr>colors :=
       [''point'' \<mapsto> kwargs_pop (kw_opts kw) ''point_color'' ''#F2BE2C'',
        ''line'' \<mapsto> kwargs_pop (kw_opts kw) ''line_color'' ''#2B94E9'']\<rparr>))"

definition PredictionError_draw ::
  "'a::{ord,minus,plus,one} list \<Rightarrow> 'a list \<Rightarrow> (('m, 'x, 'a) self_state, ref option) prog" where
  "PredictionError_draw y y_pred =
     bindE acquire_ax (\<lambda>_.
     bindE (ax_call ''scatter'' (scatter y y_pred ''#F2BE2C'' None None)) (\<lambda>_.
     bindE get_ax (\<lambda>a.
     bindE (colors_get ''line'') (\<lambda>c.
     bindE (in_plt (draw_best_fit y y_pred a ''linear'' ''--'' 2 c)) (\<lambda>_.
     bindE (ax_call_args ''set_xlim'' (padded_limits y) (\<lambda>(lo, hi). set_xlim lo hi)) (\<lambda>_.
     bindE (ax_call_args ''set_ylim'' (padded_limits y_pred) (\<lambda>(lo, hi). set_ylim lo hi)) (\<lambda>_.
     get_ax)))))))"

definition PredictionError_score ::
  "'x \<Rightarrow> 'a::{ord,minus,plus,one} list \<Rightarrow> (('m, 'x, 'a) self_state, ref option) prog" where
  "PredictionError_score X y =
     bindE (ScoreVisualizer_predict X) (\<lambda>y_pred.
     PredictionError_draw y y_pred)"

definition PredictionError_poof :: "(('m, 'x, 'a) self_state, ref option) prog" where
  "PredictionError_poof =
     bindE get_name (\<lambda>n.
     bindE (ax_call ''set_title'' (set_title (''Prediction Error for '' @ n))) (\<lambda>_.
     bindE (ax_call ''set_ylabel'' (set_ylabel ''Predicted'')) (\<lambda>_.
     bindE (plt_call (plt_xlabel ''Measured'')) (\<lambda>_.
     bindE (plt_call plt_show) (\<lambda>_.
     get_ax)))))"

section \<open>\<^verbatim>\<open>ResidualsPlot\<close>\<close>

definition ResidualsPlot_init ::
  "(('m, 'x, 'a) estimator \<Rightarrow> bool) \<Rightarrow> ('m, 'x, 'a) estimator \<Rightarrow> kwargs \<Rightarrow>
   ('a pyplot, ('m, 'x, 'a) visualizer) prog" where
  "ResidualsPlot_init isregressor model kw =
     bindE (RegressionScoreVisualizer_init isregressor model kw) (\<lambda>self.
     returnE (self\<lparr>colors :=
       [''train_point'' \<mapsto> kwargs_pop (kw_opts kw) ''train_point_color'' ''#2B94E9'',
        ''test_point'' \<mapsto> kwargs_pop (kw_opts kw) ''test_point_color'' ''#94BA65'',
        ''line'' \<mapsto> kwargs_pop (kw_opts kw) ''line_color'' ''#333333'']\<rparr>))"

definition ResidualsPlot_draw ::
  "'a list \<Rightarrow> 'a list \<Rightarrow> bool \<Rightarrow> (('m, 'x, 'a) self_state, ref option) prog" where
  "ResidualsPlot_draw y_pred residuals train =
     bindE acquire_ax (\<lambda>_.
     bindE (if train then colors_get ''train_point'' else colors_get ''test_point'') (\<lambda>color.
     let alpha = (if train then 0.5 else 1.0) in
     bindE (ax_call ''scatter'' (scatter y_pred residuals color (Some 40) (Some alpha))) (\<lambda>_.
     get_ax)))"

text \<open>The methods \<^verbatim>\<open>score\<close> and \<^verbatim>\<open>fit\<close> end without a \<^verbatim>\<open>return\<close>: they return \<^verbatim>\<open>None\<close>.\<close>

definition ResidualsPlot_score ::
  "'x \<Rightarrow> 'a::minus list \<Rightarrow> bool \<Rightarrow> (('m, 'x, 'a) self_state, ref option) prog" where
  "ResidualsPlot_score X y train =
     bindE (ScoreVisualizer_predict X) (\<lambda>y_pred.
     bindE (liftE (array_sub y_pred y)) (\<lambda>scores.
     bindE (ResidualsPlot_draw y_pred scores train) (\<lambda>_.
     returnE None)))"

definition ResidualsPlot_fit ::
  "'x \<Rightarrow> 'a::minus list \<Rightarrow> (('m, 'x, 'a) self_state, ref option) prog" where
  "ResidualsPlot_fit X y =
     bindE (ScoreVisualizer_fit X y) (\<lambda>_.
     bindE (ResidualsPlot_score X y True) (\<lambda>_.
     returnE None))"

definition ResidualsPlot_poof :: "(('m, 'x, 'a) self_state, ref option) prog" where
  "ResidualsPlot_poof =
     bindE get_ax (\<lambda>a.
     if a = None then returnE None
     else
       bindE (ax_call ''hlines'' (hlines 0 0 100)) (\<lambda>_.
       bindE get_name (\<lambda>n.
       bindE (ax_call ''set_title'' (set_title (''Residuals for '' @ n @ '' Model''))) (\<lambda>_.
       bindE (ax_call ''set_ylabel'' (set_ylabel ''Residuals'')) (\<lambda>_.
       bindE (plt_call (plt_xlabel ''Predicted Value'')) (\<lambda>_.
       bindE (plt_call plt_show) (\<lambda>_.
       get_ax)))))))"

section \<open>The lifetime of a visualizer\<close>

text \<open>
  A caller invokes the methods of one visualizer one after another; an exception leaves
  the method and the caller goes on with the object as the method left it.
  \<^verbatim>\<open>PredictionError\<close> inherits \<^verbatim>\<open>fit\<close> from the base class.
\<close>

datatype ('x, 'a) pe_call =
    PE_fit 'x "'a list"
  | PE_score 'x "'a list"
  | PE_draw "'a list" "'a list"
  | PE_poof

datatype ('x, 'a) rp_call =
    RP_fit 'x "'a list"
  | RP_score 'x "'a list" bool
  | RP_draw "'a list" "'a list" bool
  | RP_poof

fun PredictionError_call ::
  "('x, 'a::{ord,minus,plus,one}) pe_call \<Rightarrow> ('m, 'x, 'a) self_state \<Rightarrow> ('m, 'x, 'a) self_state" where
  "PredictionError_call (PE_fit X y) s = snd (ScoreVisualizer_fit X y s)"
| "PredictionError_call (PE_score X y) s = snd (PredictionError_score X y s)"
| "PredictionError_call (PE_draw y y_pred) s = snd (PredictionError_draw y y_pred s)"
| "PredictionError_call PE_poof s = snd (PredictionError_poof s)"

fun ResidualsPlot_call ::
  "('x, 'a::minus) rp_call \<Rightarrow> ('m, 'x, 'a) self_state \<Rightarrow> ('m, 'x, 'a) self_state" where
  "ResidualsPlot_call (RP_fit X y) s = snd (ResidualsPlot_fit X y s)"
| "ResidualsPlot_call (RP_score X y train) s = snd (ResidualsPlot_score X y train s)"
| "ResidualsPlot_call (RP_draw y_pred residuals train) s = snd (ResidualsPlot_draw y_pred residuals train s)"
| "ResidualsPlot_call RP_poof s = snd (ResidualsPlot_poof s)"

definition PredictionError_lifetime ::
  "('x, 'a::{ord,minus,plus,one}) pe_call list \<Rightarrow> ('m, 'x, 'a) self_state \<Rightarrow> ('m, 'x, 'a) self_state" where
  "PredictionError_lifetime calls s = fold PredictionError_call calls s"

definition ResidualsPlot_lifetime ::
  "('x, 'a::minus) rp_call list \<Rightarrow> ('m, 'x, 'a) self_state \<Rightarrow> ('m, 'x, 'a) self_state" where
  "ResidualsPlot_lifetime calls s = fold ResidualsPlot_call calls s"

section \<open>Concrete inputs\<close>

text \<open>
  An estimator over integers whose learned state is an offset: \<^verbatim>\<open>fit\<close> learns the
  first target, \<^verbatim>\<open>predict\<close> adds the offset to every input. A \<^verbatim>\<open>pyplot\<close> state
  with no Axes yet, and a constructor call without options.
\<close>

definition offset_estimator :: "(int, int list, int) estimator" where
  "offset_estimator =
     \<lparr>est_name = ''OffsetRegressor'', est_model = 0,
      est_fit = (\<lambda>m X y. case y of [] \<Rightarrow> Inl (ValueError ''empty target'') | t # _ \<Rightarrow> Inr t),
      est_predict = (\<lambda>m X. Inr (map (\<lambda>x. x + m) X))\<rparr>"

definition fresh_pyplot :: "int pyplot" where
  "fresh_pyplot = \<lparr>axes = (\<lambda>_. blank_surface), n_axes = 0, current = None, show_count = 0\<rparr>"

definition no_kwargs :: kwargs where
  "no_kwargs = \<lparr>kw_ax = None, kw_opts = Map.empty\<rparr>"

text \<open>
  A capability predicate that recognises the estimator above by its class name, an
  estimator it rejects, a constructor call that overrides two colours, and the objects
  the two concrete constructors build from the defaults.
\<close>

definition named_regressor :: "(int, int list, int) estimator \<Rightarrow> bool" where
  "named_regressor model = (est_name model = ''OffsetRegressor'')"

definition kmeans_estimator :: "(int, int list, int) estimator" where
  "kmeans_estimator = offset_estimator\<lparr>est_name := ''KMeans''\<rparr>"

definition custom_kwargs :: kwargs where
  "custom_kwargs =
     \<lparr>kw_ax = None,
      kw_opts = [''point_color'' \<mapsto> ''#000000'', ''train_point_color'' \<mapsto> ''#FF0000'']\<rparr>"

definition pe_default :: "(int, int list, int) visualizer" where
  "pe_default =
     \<lparr>estimator = offset_estimator, name = ''OffsetRegressor'', ax = None,
      colors = [''point'' \<mapsto> ''#F2BE2C'', ''line'' \<mapsto> ''#2B94E9'']\<rparr>"

definition rp_default :: "(int, int list, int) visualizer" where
  "rp_default =
     \<lparr>estimator = offset_estimator, name = ''OffsetRegressor'', ax = None,
      colors = [''train_point'' \<mapsto> ''#2B94E9'', ''test_point'' \<mapsto> ''#94BA65'',
                ''line'' \<mapsto> ''#333333'']\<rparr>"

text \<open>
  A \<^verbatim>\<open>pyplot\<close> state with two Axes objects of which the second is current, and a
  constructor call that supplies the first as the \<^verbatim>\<open>ax\<close> option.
\<close>

definition two_axes_pyplot :: "int pyplot" where
  "two_axes_pyplot = \<lparr>axes = (\<lambda>_. blank_surface), n_axes = 2, current = Some 1, show_count = 0\<rparr>"

definition first_axes_kwargs :: kwargs where
  "first_axes_kwargs = \<lparr>kw_ax = Some 0, kw_opts = Map.empty\<rparr>"

section \<open>Evaluating the methods\<close>

text \<open>
  The state a method reaches, as an equation. In each, \<open>(r, w0)\<close> is the Surface and
  the \<^verbatim>\<open>pyplot\<close> state after the nullability test at the top of \<^verbatim>\<open>draw\<close>.
\<close>

lemmas monad_defs = returnE_def raiseE_def liftE_def bindE_def acquire_ax_def ax_call_args_def
  ax_call_def colors_get_def get_ax_def plt_call_def get_name_def in_plt_def

lemma amin_Min: "y \<noteq> [] \<Longrightarrow> amin y = Inr (Min (set (y::'a::linorder list)))"
  by (cases y) (simp_all add: Min.set_eq_fold del: set_simps)

lemma amax_Max: "y \<noteq> [] \<Longrightarrow> amax y = Inr (Max (set (y::'a::linorder list)))"
  by (cases y) (simp_all add: Max.set_eq_fold del: set_simps)

lemma padded_limits_Min_Max:
  fixes y :: "'a::{linorder,minus,plus,one} list"
  shows "y \<noteq> [] \<Longrightarrow> padded_limits y = Inr (Min (set y) - 1, Max (set y) + 1)"
  by (simp add: padded_limits_def amin_Min amax_Max)

lemma length_new_marks: "length (new_marks xs ys c s a) = min (length xs) (length ys)"
  by (simp add: new_marks_def)

lemma PredictionError_draw_result:
  fixes y y_pred :: "'a::{linorder,minus,plus,one} list"
  assumes "length y = length y_pred" and "y \<noteq> []" and "colors v ''line'' = Some c"
    and "(r, w0) = (case ax v of None \<Rightarrow> gca w | Some a \<Rightarrow> (a, w))"
  shows "PredictionError_draw y y_pred (v, w) =
     (Inr (Some r), (v\<lparr>ax := Some r\<rparr>,
        w0\<lparr>axes := (axes w0)(r := (axes w0 r)
          \<lparr>marks := marks (axes w0 r) @ new_marks y y_pred ''#F2BE2C'' None None,
           lines := lines (axes w0 r) @ [BestFitLine y y_pred ''linear'' ''--'' 2 c],
           xlim := Some (Min (set y) - 1, Max (set y) + 1),
           ylim := Some (Min (set y_pred) - 1, Max (set y_pred) + 1)\<rparr>)\<rparr>))"
proof -
  from assms(1,2) have ne: "y_pred \<noteq> []" by auto
  show ?thesis
  proof (cases "ax v")
    case None
    with assms(4) have g: "gca w = (r, w0)" by simp
    show ?thesis using assms(1-3) ne None g
      by (simp add: PredictionError_draw_def monad_defs scatter_def draw_best_fit_def
          padded_limits_Min_Max set_xlim_def set_ylim_def)
  next
    case (Some a)
    with assms(4) have g: "a = r" "w0 = w" by simp_all
    show ?thesis using assms(1-3) ne Some g
      by (simp add: PredictionError_draw_def monad_defs scatter_def draw_best_fit_def
          padded_limits_Min_Max set_xlim_def set_ylim_def)
  qed
qed

lemma ResidualsPlot_draw_result:
  assumes "length y_pred = length residuals"
    and "colors v (if train then ''train_point'' else ''test_point'') = Some c"
    and "(r, w0) = (case ax v of None \<Rightarrow> gca w | Some a \<Rightarrow> (a, w))"
  shows "ResidualsPlot_draw y_pred residuals train (v, w) =
     (Inr (Some r), (v\<lparr>ax := Some r\<rparr>,
        w0\<lparr>axes := (axes w0)(r := (axes w0 r)
          \<lparr>marks := marks (axes w0 r) @
             new_marks y_pred residuals c (Some 40) (Some (if train then 1/2 else 1))\<rparr>)\<rparr>))"
proof (cases "ax v")
  case None
  with assms(3) have g: "gca w = (r, w0)" by simp
  show ?thesis using assms(1,2) None g
    by (cases train) (simp_all add: ResidualsPlot_draw_def monad_defs scatter_def Let_def)
next
  case (Some a)
  with assms(3) have g: "a = r" "w0 = w" by simp_all
  show ?thesis using assms(1,2) Some g
    by (cases train) (simp_all add: ResidualsPlot_draw_def monad_defs scatter_def Let_def)
qed

lemma ResidualsPlot_score_result:
  fixes y :: "'a::minus list"
  assumes "est_predict (estimator v) (est_model (estimator v)) X = Inr p"
    and "length p = length y"
    and "colors v (if train then ''train_point'' else ''test_point'') = Some c"
    and "(r, w0) = (case ax v of None \<Rightarrow> gca w | Some a \<Rightarrow> (a, w))"
  shows "ResidualsPlot_score X y train (v, w) =
     (Inr None, (v\<lparr>ax := Some r\<rparr>,
        w0\<lparr>axes := (axes w0)(r := (axes w0 r)
          \<lparr>marks := marks (axes w0 r) @
             new_marks p (map (\<lambda>(a, b). a - b) (zip p y)) c (Some 40)
               (Some (if train then 1/2 else 1))\<rparr>)\<rparr>))"
proof -
  have len: "length p = length (map (\<lambda>(a, b). a - b) (zip p y))" using assms(2) by simp
  show ?thesis
    using assms(1,2) ResidualsPlot_draw_result[OF len assms(3,4)]
    by (simp add: ResidualsPlot_score_def bindE_def liftE_def returnE_def
        ScoreVisualizer_predict_def array_sub_def)
qed

section \<open>What a method leaves unchanged\<close>

text \<open>
  A property of the state that every statement of a method keeps is kept by the method,
  whether it returns or raises.
\<close>

lemma bindE_inv:
  assumes "\<And>s. P s \<Longrightarrow> P (snd (m s))" and "\<And>x s. P s \<Longrightarrow> P (snd (f x s))" and "P s"
  shows "P (snd (bindE m f s))"
proof (cases "m s")
  case (Pair res s')
  from assms(1)[OF assms(3)] Pair have "P s'" by simp
  with assms(2) Pair show ?thesis by (cases res) (simp_all add: bindE_def)
qed

lemma prim_keep0:
  "P s \<Longrightarrow> P (snd (returnE x s))"
  "P s \<Longrightarrow> P (snd (raiseE e s))"
  "P s \<Longrightarrow> P (snd (liftE z s))"
  "P s \<Longrightarrow> P (snd (get_ax s))"
  "P s \<Longrightarrow> P (snd (get_name s))"
  "P s \<Longrightarrow> P (snd (colors_get k s))"
  "P s \<Longrightarrow> P (snd (ScoreVisualizer_predict X s))"
  by (cases s; simp add: returnE_def raiseE_def liftE_def get_ax_def get_name_def colors_get_def
       ScoreVisualizer_predict_def split: option.splits)+

lemmas prim_keep = prim_keep0[where P = "\<lambda>s. ax (fst s) = Some r" for r]
lemmas bind_keep = bindE_inv[where P = "\<lambda>s. ax (fst s) = Some r" for r]

lemma ax_keep:
  fixes s :: "('m, 'x, 'a) self_state"
  assumes "ax (fst s) = Some r"
  shows "ax (fst (snd (acquire_ax s))) = Some r"
    and "ax (fst (snd (ax_call_args meth args g s))) = Some r"
    and "ax (fst (snd (ax_call meth h s))) = Some r"
    and "ax (fst (snd (plt_call k s))) = Some r"
    and "ax (fst (snd (in_plt p s))) = Some r"
    and "ax (fst (snd (ScoreVisualizer_fit X y s))) = Some r"
  using assms
  by (cases s; simp add: acquire_ax_def ax_call_args_def ax_call_def plt_call_def in_plt_def
       ScoreVisualizer_fit_def split: sum.splits prod.splits)+

lemma PredictionError_draw_keeps_ax:
  "ax (fst s) = Some r \<Longrightarrow> ax (fst (snd (PredictionError_draw y y_pred s))) = Some r"
  unfolding PredictionError_draw_def
  by (intro bind_keep ax_keep prim_keep)

lemma ResidualsPlot_draw_keeps_ax:
  "ax (fst s) = Some r \<Longrightarrow> ax (fst (snd (ResidualsPlot_draw y_pred residuals train s))) = Some r"
  unfolding ResidualsPlot_draw_def Let_def
  by (cases train; simp) (intro bind_keep ax_keep prim_keep; assumption)+

lemma PredictionError_score_keeps_ax:
  "ax (fst s) = Some r \<Longrightarrow> ax (fst (snd (PredictionError_score X y s))) = Some r"
  unfolding PredictionError_score_def
  by (intro bind_keep PredictionError_draw_keeps_ax prim_keep)

lemma ResidualsPlot_score_keeps_ax:
  "ax (fst s) = Some r \<Longrightarrow> ax (fst (snd (ResidualsPlot_score X y train s))) = Some r"
  unfolding ResidualsPlot_score_def
  by (intro bind_keep ResidualsPlot_draw_keeps_ax prim_keep)

lemma ResidualsPlot_fit_keeps_ax:
  "ax (fst s) = Some r \<Longrightarrow> ax (fst (snd (ResidualsPlot_fit X y s))) = Some r"
  unfolding ResidualsPlot_fit_def
  by (intro bind_keep ResidualsPlot_score_keeps_ax ax_keep prim_keep)

lemma PredictionError_poof_keeps_ax:
  "ax (fst s) = Some r \<Longrightarrow> ax (fst (snd (PredictionError_poof s))) = Some r"
  unfolding PredictionError_poof_def
  by (intro bind_keep ax_keep prim_keep)

lemma ResidualsPlot_poof_keeps_ax:
  "ax (fst s) = Some r \<Longrightarrow> ax (fst (snd (ResidualsPlot_poof s))) = Some r"
  unfolding ResidualsPlot_poof_def
  apply (rule bind_keep)
    apply (rule prim_keep, assumption)
   apply (simp split: if_splits)
   apply (intro conjI impI prim_keep bind_keep ax_keep; assumption)
  apply assumption
  done

lemma PredictionError_call_keeps_ax:
  "ax (fst s) = Some r \<Longrightarrow> ax (fst (PredictionError_call c s)) = Some r"
  by (cases c)
     (simp_all add: ax_keep PredictionError_score_keeps_ax
        PredictionError_draw_keeps_ax PredictionError_poof_keeps_ax)

lemma ResidualsPlot_call_keeps_ax:
  "ax (fst s) = Some r \<Longrightarrow> ax (fst (ResidualsPlot_call c s)) = Some r"
  by (cases c)
     (simp_all add: ResidualsPlot_fit_keeps_ax ResidualsPlot_score_keeps_ax
        ResidualsPlot_draw_keeps_ax ResidualsPlot_poof_keeps_ax)

lemma PredictionError_lifetime_keeps_ax:
  "ax (fst s) = Some r \<Longrightarrow> ax (fst (PredictionError_lifetime calls s)) = Some r"
  unfolding PredictionError_lifetime_def
  by (induction calls arbitrary: s) (simp_all add: PredictionError_call_keeps_ax)

lemma ResidualsPlot_lifetime_keeps_ax:
  "ax (fst s) = Some r \<Longrightarrow> ax (fst (ResidualsPlot_lifetime calls s)) = Some r"
  unfolding ResidualsPlot_lifetime_def
  by (induction calls arbitrary: s) (simp_all add: ResidualsPlot_call_keeps_ax)

lemma PredictionError_score_result:
  fixes y :: "'a::{linorder,minus,plus,one} list"
  assumes "est_predict (estimator v) (est_model (estimator v)) X = Inr p"
    and "length y = length p" and "y \<noteq> []" and "colors v ''line'' = Some c"
    and "(r, w0) = (case ax v of None \<Rightarrow> gca w | Some a \<Rightarrow> (a, w))"
  shows "PredictionError_score X y (v, w) =
     (Inr (Some r), (v\<lparr>ax := Some r\<rparr>,
        w0\<lparr>axes := (axes w0)(r := (axes w0 r)
          \<lparr>marks := marks (axes w0 r) @ new_marks y p ''#F2BE2C'' None None,
           lines := lines (axes w0 r) @ [BestFitLine y p ''linear'' ''--'' 2 c],
           xlim := Some (Min (set y) - 1, Max (set y) + 1),
           ylim := Some (Min (set p) - 1, Max (set p) + 1)\<rparr>)\<rparr>))"
  using assms(1) PredictionError_draw_result[OF assms(2-5)]
  by (simp add: PredictionError_score_def bindE_def ScoreVisualizer_predict_def)

lemma ResidualsPlot_fit_unfold:
  "ResidualsPlot_fit X y s =
     (case ScoreVisualizer_fit X y s of
        (Inl e, s') \<Rightarrow> (Inl e, s')
      | (Inr u, s') \<Rightarrow> ResidualsPlot_score X y True s')"
proof -
  have eq: "bindE (ResidualsPlot_score X y True) (\<lambda>_. returnE None) = ResidualsPlot_score X y True"
    by (rule ext) (simp add: ResidualsPlot_score_def bindE_def returnE_def split: prod.splits sum.splits)
  show ?thesis
    by (simp add: ResidualsPlot_fit_def eq bindE_def[of "ScoreVisualizer_fit X y"])
qed

lemma ResidualsPlot_fit_result:
  fixes y :: "'a::minus list"
  assumes "est_fit (estimator v) (est_model (estimator v)) X y = Inr m"
    and "est_predict (estimator v) m X = Inr p"
    and "length p = length y"
    and "colors v ''train_point'' = Some c"
    and "(r, w0) = (case ax v of None \<Rightarrow> gca w | Some a \<Rightarrow> (a, w))"
  shows "ResidualsPlot_fit X y (v, w) =
     (Inr None, (v\<lparr>estimator := (estimator v)\<lparr>est_model := m\<rparr>, ax := Some r\<rparr>,
        w0\<lparr>axes := (axes w0)(r := (axes w0 r)
          \<lparr>marks := marks (axes w0 r) @
             new_marks p (map (\<lambda>(a, b). a - b) (zip p y)) c (Some 40) (Some (1/2))\<rparr>)\<rparr>))"
proof -
  let ?v = "v\<lparr>estimator := (estimator v)\<lparr>est_model := m\<rparr>\<rparr>"
  have 1: "est_predict (estimator ?v) (est_model (estimator ?v)) X = Inr p" using assms(2) by simp
  have 3: "colors ?v (if True then ''train_point'' else ''test_point'') = Some c" using assms(4) by simp
  have 4: "(r, w0) = (case ax ?v of None \<Rightarrow> gca w | Some a \<Rightarrow> (a, w))" using assms(5) by simp
  show ?thesis
    using assms(1) ResidualsPlot_score_result[OF 1 assms(3) 3 4]
    by (simp add: ResidualsPlot_fit_unfold ScoreVisualizer_fit_def)
qed

lemmas bind_keep2 = bindE_inv[where P = "\<lambda>s. ax (fst s) = Some r \<and> n_axes (snd s) = n \<and> current (snd s) = c" for r n c]
lemmas prim_keep2 = prim_keep0[where P = "\<lambda>s. ax (fst s) = Some r \<and> n_axes (snd s) = n \<and> current (snd s) = c" for r n c]

lemma axes_keep:
  fixes s :: "('m, 'x, 'a) self_state"
  assumes "ax (fst s) = Some r \<and> n_axes (snd s) = n \<and> current (snd s) = c"
  shows "ax (fst (snd (acquire_ax s))) = Some r \<and> n_axes (snd (snd (acquire_ax s))) = n
           \<and> current (snd (snd (acquire_ax s))) = c"
    and "ax (fst (snd (ax_call_args meth args g s))) = Some r
           \<and> n_axes (snd (snd (ax_call_args meth args g s))) = n
           \<and> current (snd (snd (ax_call_args meth args g s))) = c"
    and "ax (fst (snd (ax_call meth h s))) = Some r \<and> n_axes (snd (snd (ax_call meth h s))) = n
           \<and> current (snd (snd (ax_call meth h s))) = c"
    and "ax (fst (snd (in_plt (draw_best_fit xs ys a kind ls lw col) s))) = Some r
           \<and> n_axes (snd (snd (in_plt (draw_best_fit xs ys a kind ls lw col) s))) = n
           \<and> current (snd (snd (in_plt (draw_best_fit xs ys a kind ls lw col) s))) = c"
  using assms
  by (cases s; simp add: acquire_ax_def ax_call_args_def ax_call_def in_plt_def draw_best_fit_def
       split: sum.splits prod.splits option.splits)+

lemma PredictionError_draw_keeps_axes:
  "ax (fst s) = Some r \<and> n_axes (snd s) = n \<and> current (snd s) = c \<Longrightarrow>
   ax (fst (snd (PredictionError_draw y y_pred s))) = Some r
     \<and> n_axes (snd (snd (PredictionError_draw y y_pred s))) = n
     \<and> current (snd (snd (PredictionError_draw y y_pred s))) = c"
  unfolding PredictionError_draw_def
  by (intro bind_keep2 axes_keep prim_keep2)

lemma ResidualsPlot_draw_keeps_axes:
  "ax (fst s) = Some r \<and> n_axes (snd s) = n \<and> current (snd s) = c \<Longrightarrow>
   ax (fst (snd (ResidualsPlot_draw y_pred residuals train s))) = Some r
     \<and> n_axes (snd (snd (ResidualsPlot_draw y_pred residuals train s))) = n
     \<and> current (snd (snd (ResidualsPlot_draw y_pred residuals train s))) = c"
  unfolding ResidualsPlot_draw_def Let_def
  by (cases train; simp) (intro bind_keep2 axes_keep prim_keep2; assumption)+

lemma acquire_ax_None:
  "ax v = None \<Longrightarrow> gca w = (r, w0) \<Longrightarrow> bindE acquire_ax f (v, w) = f () (v\<lparr>ax := Some r\<rparr>, w0)"
  by (simp add: bindE_def acquire_ax_def)

lemma acquire_ax_Some:
  "ax v = Some r \<Longrightarrow> bindE acquire_ax f (v, w) = f () (v, w)"
  by (simp add: bindE_def acquire_ax_def)

lemma PredictionError_draw_acquires:
  assumes "ax v = None"
  shows "ax (fst (snd (PredictionError_draw y y_pred (v, w)))) = Some (fst (gca w))"
proof -
  obtain r w0 where g: "gca w = (r, w0)" by (cases "gca w")
  have "PredictionError_draw y y_pred (v, w) = PredictionError_draw y y_pred (v\<lparr>ax := Some r\<rparr>, w0)"
    using assms g unfolding PredictionError_draw_def
    by (simp add: acquire_ax_None[OF assms g] acquire_ax_Some[of "v\<lparr>ax := Some r\<rparr>" r])
  then show ?thesis using PredictionError_draw_keeps_ax[of "(v\<lparr>ax := Some r\<rparr>, w0)" r y y_pred] g
    by simp
qed

lemma ResidualsPlot_draw_acquires:
  assumes "ax v = None"
  shows "ax (fst (snd (ResidualsPlot_draw y_pred residuals train (v, w)))) = Some (fst (gca w))"
proof -
  obtain r w0 where g: "gca w = (r, w0)" by (cases "gca w")
  have "ResidualsPlot_draw y_pred residuals train (v, w) =
        ResidualsPlot_draw y_pred residuals train (v\<lparr>ax := Some r\<rparr>, w0)"
    using assms g unfolding ResidualsPlot_draw_def
    by (simp add: acquire_ax_None[OF assms g] acquire_ax_Some[of "v\<lparr>ax := Some r\<rparr>" r])
  then show ?thesis
    using ResidualsPlot_draw_keeps_ax[of "(v\<lparr>ax := Some r\<rparr>, w0)" r y_pred residuals train] g
    by simp
qed

text \<open>
  \<^verbatim>\<open>ResidualsPlot.poof\<close> on a visualizer whose Surface \<open>r\<close> is an existing Axes
  object: what goes to the Surface, and where the x-axis label goes.
\<close>

lemma ResidualsPlot_poof_result:
  assumes "ax v = Some r" and "r < n_axes w"
  shows "\<exists>w'. ResidualsPlot_poof (v, w) = (Inr (Some r), (v, w'))
     \<and> lines (axes w' r) = lines (axes w r) @ [HLine 0 0 100]
     \<and> title (axes w' r) = Some (''Residuals for '' @ name v @ '' Model'')
     \<and> ylabel (axes w' r) = Some ''Residuals''
     \<and> xlabel (axes w' (fst (gca w))) = Some ''Predicted Value''
     \<and> (current w = Some r \<longrightarrow> xlabel (axes w' r) = Some ''Predicted Value'')
     \<and> show_count w' = Suc (show_count w)
     \<and> marks (axes w' r) = marks (axes w r)"
proof (cases "current w")
  case None
  with assms show ?thesis
    by (simp add: ResidualsPlot_poof_def monad_defs hlines_def set_title_def set_ylabel_def
        plt_xlabel_def plt_show_def gca_def)
next
  case (Some c)
  with assms show ?thesis
    by (cases "c = r")
       (simp_all add: ResidualsPlot_poof_def monad_defs hlines_def set_title_def set_ylabel_def
        plt_xlabel_def plt_show_def gca_def)
qed

section \<open>The claims\<close>

text \<open>
  C1. Constructing a \<^verbatim>\<open>RegressionScoreVisualizer\<close>, a \<^verbatim>\<open>PredictionError\<close> or a
  \<^verbatim>\<open>ResidualsPlot\<close> around an object that does not satisfy \<^verbatim>\<open>isregressor\<close> raises
  \<^verbatim>\<open>YellowbrickTypeError\<close>, builds no object and leaves the plotting state as it was;
  around an object that satisfies \<^verbatim>\<open>isregressor\<close> it succeeds, and the object built
  holds the estimator and its class name.
\<close>

theorem regressor_gate:
  "(\<not> isregressor model \<longrightarrow>
      (\<exists>msg. RegressionScoreVisualizer_init isregressor model kw w = (Inl (YellowbrickTypeError msg), w)
           \<and> PredictionError_init isregressor model kw w = (Inl (YellowbrickTypeError msg), w)
           \<and> ResidualsPlot_init isregressor model kw w = (Inl (YellowbrickTypeError msg), w)))
   \<and> (isregressor model \<longrightarrow>
      (\<exists>v. RegressionScoreVisualizer_init isregressor model kw w = (Inr v, w)
           \<and> estimator v = model \<and> name v = est_name model)
      \<and> (\<exists>v. PredictionError_init isregressor model kw w = (Inr v, w)
           \<and> estimator v = model \<and> name v = est_name model)
      \<and> (\<exists>v. ResidualsPlot_init isregressor model kw w = (Inr v, w)
           \<and> estimator v = model \<and> name v = est_name model))"
  by (simp add: RegressionScoreVisualizer_init_def PredictionError_init_def ResidualsPlot_init_def
      ScoreVisualizer_init_def get_model_name_def returnE_def raiseE_def bindE_def)

theorem regressor_gate_witness:
  "(\<exists>msg. PredictionError_init named_regressor kmeans_estimator custom_kwargs fresh_pyplot
             = (Inl (YellowbrickTypeError msg), fresh_pyplot)
        \<and> ResidualsPlot_init named_regressor kmeans_estimator custom_kwargs fresh_pyplot
             = (Inl (YellowbrickTypeError msg), fresh_pyplot))
   \<and> (\<exists>v. PredictionError_init named_regressor offset_estimator no_kwargs fresh_pyplot
             = (Inr v, fresh_pyplot) \<and> name v = ''OffsetRegressor'')
   \<and> (\<exists>v. ResidualsPlot_init named_regressor offset_estimator no_kwargs fresh_pyplot
             = (Inr v, fresh_pyplot) \<and> name v = ''OffsetRegressor'')"
proof -
  have no: "\<not> named_regressor kmeans_estimator"
    by (simp add: named_regressor_def kmeans_estimator_def offset_estimator_def)
  have yes: "named_regressor offset_estimator"
    by (simp add: named_regressor_def offset_estimator_def)
  have nm: "est_name offset_estimator = ''OffsetRegressor''"
    by (simp add: offset_estimator_def)
  from regressor_gate[of named_regressor kmeans_estimator custom_kwargs fresh_pyplot] no
  have a: "\<exists>msg. PredictionError_init named_regressor kmeans_estimator custom_kwargs fresh_pyplot
             = (Inl (YellowbrickTypeError msg), fresh_pyplot)
        \<and> ResidualsPlot_init named_regressor kmeans_estimator custom_kwargs fresh_pyplot
             = (Inl (YellowbrickTypeError msg), fresh_pyplot)"
    by blast
  from regressor_gate[of named_regressor offset_estimator no_kwargs fresh_pyplot] yes
  have b: "(\<exists>v. PredictionError_init named_regressor offset_estimator no_kwargs fresh_pyplot
             = (Inr v, fresh_pyplot) \<and> name v = ''OffsetRegressor'')
   \<and> (\<exists>v. ResidualsPlot_init named_regressor offset_estimator no_kwargs fresh_pyplot
             = (Inr v, fresh_pyplot) \<and> name v = ''OffsetRegressor'')"
    unfolding nm by blast
  from a b show ?thesis by blast
qed

text \<open>
  C2. The claim is that the scatter points of \<^verbatim>\<open>PredictionError.draw\<close> take the colour
  stored under \<^verbatim>\<open>'point'\<close>. The constructor stores the \<^verbatim>\<open>point_color\<close> option there,
  and \<^verbatim>\<open>draw\<close> passes the literal \<^verbatim>\<open>'#F2BE2C'\<close> to \<^verbatim>\<open>scatter\<close>: with
  \<^verbatim>\<open>point_color='#000000'\<close> the three points at (actual, predicted) are drawn in
  \<^verbatim>\<open>'#F2BE2C'\<close>.
\<close>

theorem PredictionError_draw_point_color_unused:
  "\<exists>v w'. PredictionError_init named_regressor offset_estimator custom_kwargs fresh_pyplot
             = (Inr v, fresh_pyplot)
     \<and> colors v ''point'' = Some ''#000000''
     \<and> PredictionError_draw [1, 2, 3] [1, 3, 4] (v, fresh_pyplot)
         = (Inr (Some 0), (v\<lparr>ax := Some 0\<rparr>, w'))
     \<and> map (\<lambda>m. (mark_x m, mark_y m, mark_c m)) (marks (axes w' 0))
         = [(1, 1, ''#F2BE2C''), (2, 3, ''#F2BE2C''), (3, 4, ''#F2BE2C'')]"
proof -
  let ?v = "\<lparr>estimator = offset_estimator, name = ''OffsetRegressor'', ax = None,
             colors = [''point'' \<mapsto> ''#000000'', ''line'' \<mapsto> ''#2B94E9'']\<rparr>
            :: (int, int list, int) visualizer"
  have init: "PredictionError_init named_regressor offset_estimator custom_kwargs fresh_pyplot
             = (Inr ?v, fresh_pyplot)"
    by (simp add: RegressionScoreVisualizer_init_def PredictionError_init_def
        ScoreVisualizer_init_def get_model_name_def returnE_def raiseE_def bindE_def
        named_regressor_def offset_estimator_def custom_kwargs_def kwargs_pop_def)
  have g: "(0, snd (gca fresh_pyplot)) = (case ax ?v of None \<Rightarrow> gca fresh_pyplot | Some a \<Rightarrow> (a, fresh_pyplot))"
    by (simp add: gca_def fresh_pyplot_def)
  let ?w = "(snd (gca fresh_pyplot))\<lparr>axes := (axes (snd (gca fresh_pyplot)))(0 := (axes (snd (gca fresh_pyplot)) 0)
          \<lparr>marks := marks (axes (snd (gca fresh_pyplot)) 0) @ new_marks [1, 2, 3] [1, 3, 4] ''#F2BE2C'' None None,
           lines := lines (axes (snd (gca fresh_pyplot)) 0) @ [BestFitLine [1, 2, 3] [1, 3, 4] ''linear'' ''--'' 2 ''#2B94E9''],
           xlim := Some (Min (set [1, 2, 3]) - 1, Max (set [1, 2, 3]) + 1),
           ylim := Some (Min (set [1, 3, 4]) - 1, Max (set [1, 3, 4]) + 1)\<rparr>)\<rparr>"
  have d: "PredictionError_draw [1, 2, 3] [1, 3, 4] (?v, fresh_pyplot) = (Inr (Some 0), (?v\<lparr>ax := Some 0\<rparr>, ?w))"
    by (rule PredictionError_draw_result[OF _ _ _ g]) simp_all
  have m: "map (\<lambda>m. (mark_x m, mark_y m, mark_c m)) (marks (axes ?w 0))
         = [(1, 1, ''#F2BE2C''), (2, 3, ''#F2BE2C''), (3, 4, ''#F2BE2C'')]"
    by (simp add: gca_def fresh_pyplot_def blank_surface_def new_marks_def)
  have c: "colors ?v ''point'' = Some ''#000000''" by simp
  show ?thesis
    by (rule exI[of _ ?v], rule exI[of _ ?w]) (intro conjI init c d m)
qed

text \<open>
  C3. For series \<open>y\<close> and \<open>y_pred\<close> of the same length \<open>n \<ge> 1\<close>, one call of
  \<^verbatim>\<open>PredictionError.draw(y, y_pred)\<close> returns the Surface, adds to it exactly \<open>n\<close>
  scatter marks, the marks at (actual, predicted), and exactly one best-fit line, and sets
  the x-axis limits to \<open>(min(y) - 1, max(y) + 1)\<close> and the y-axis limits to
  \<open>(min(y_pred) - 1, max(y_pred) + 1)\<close>. Here \<open>(r, w0)\<close> is the Surface and the
  plotting state after the nullability test at the top of \<^verbatim>\<open>draw\<close>.
\<close>

theorem PredictionError_draw_adds:
  fixes y y_pred :: "'a::{linorder,minus,plus,one} list"
  assumes "length y = length y_pred" and "1 \<le> length y" and "colors v ''line'' = Some c"
    and "(r, w0) = (case ax v of None \<Rightarrow> gca w | Some a \<Rightarrow> (a, w))"
  shows "\<exists>w'. PredictionError_draw y y_pred (v, w) = (Inr (Some r), (v\<lparr>ax := Some r\<rparr>, w'))
     \<and> marks (axes w' r) = marks (axes w0 r) @ new_marks y y_pred ''#F2BE2C'' None None
     \<and> length (marks (axes w' r)) = length (marks (axes w0 r)) + length y
     \<and> lines (axes w' r) = lines (axes w0 r) @ [BestFitLine y y_pred ''linear'' ''--'' 2 c]
     \<and> xlim (axes w' r) = Some (Min (set y) - 1, Max (set y) + 1)
     \<and> ylim (axes w' r) = Some (Min (set y_pred) - 1, Max (set y_pred) + 1)"
proof -
  from assms(2) have ne: "y \<noteq> []" by auto
  show ?thesis
    using assms(1)
    by (simp add: PredictionError_draw_result[OF assms(1) ne assms(3,4)] length_new_marks)
qed

theorem PredictionError_draw_adds_witness:
  "\<exists>w'. PredictionError_draw [1, 2, 3] [1, 3, 4] (pe_default, fresh_pyplot)
           = (Inr (Some 0), (pe_default\<lparr>ax := Some 0\<rparr>, w'))
     \<and> length (marks (axes w' 0)) = 3
     \<and> lines (axes w' 0) = [BestFitLine [1, 2, 3] [1, 3, 4] ''linear'' ''--'' 2 ''#2B94E9'']
     \<and> xlim (axes w' 0) = Some (0, 4)
     \<and> ylim (axes w' 0) = Some (0, 5)"
proof -
  have h1: "length [1, 2, 3::int] = length [1, 3, 4::int]" by simp
  have h2: "1 \<le> length [1, 2, 3::int]" by simp
  have h3: "colors pe_default ''line'' = Some ''#2B94E9''" by (simp add: pe_default_def)
  have h4: "(0, snd (gca fresh_pyplot)) =
      (case ax pe_default of None \<Rightarrow> gca fresh_pyplot | Some a \<Rightarrow> (a, fresh_pyplot))"
    by (simp add: pe_default_def gca_def fresh_pyplot_def)
  from PredictionError_draw_adds[OF h1 h2 h3 h4] obtain w' where
    w: "PredictionError_draw [1, 2, 3] [1, 3, 4] (pe_default, fresh_pyplot)
           = (Inr (Some 0), (pe_default\<lparr>ax := Some 0\<rparr>, w'))"
       "length (marks (axes w' 0)) = length (marks (axes (snd (gca fresh_pyplot)) 0)) + length [1, 2, 3::int]"
       "lines (axes w' 0) = lines (axes (snd (gca fresh_pyplot)) 0) @ [BestFitLine [1, 2, 3] [1, 3, 4] ''linear'' ''--'' 2 ''#2B94E9'']"
       "xlim (axes w' 0) = Some (Min (set [1, 2, 3::int]) - 1, Max (set [1, 2, 3::int]) + 1)"
       "ylim (axes w' 0) = Some (Min (set [1, 3, 4::int]) - 1, Max (set [1, 3, 4::int]) + 1)"
    by blast
  show ?thesis
    by (rule exI[of _ w'], simp only: w, simp add: gca_def fresh_pyplot_def blank_surface_def)
qed

text \<open>
  C4. The claim is that \<^verbatim>\<open>ResidualsPlot.poof\<close>, called on a visualizer that holds a
  Surface, draws the line at \<open>y = 0\<close> from \<open>x = 0\<close> to \<open>x = 100\<close>, sets the title
  \<^verbatim>\<open>Residuals for {name} Model\<close>, the y-axis label \<^verbatim>\<open>Residuals\<close> and the x-axis
  label \<^verbatim>\<open>Predicted Value\<close>, triggers the display and returns the Surface. The line,
  the title and the y-axis label go to \<^verbatim>\<open>self.ax\<close>; the x-axis label is set with
  \<^verbatim>\<open>plt.xlabel\<close>, on the current Axes. With two Axes of which the second is current,
  a visualizer built around the first, or one that acquired the first in \<^verbatim>\<open>draw\<close>
  before the second became current, returns from \<^verbatim>\<open>poof\<close> a Surface with the line,
  the title and the y-axis label and without an x-axis label: \<^verbatim>\<open>Predicted Value\<close>
  is on the other Axes.
\<close>

theorem ResidualsPlot_poof_xlabel_off_surface:
  "(\<exists>v w'. ResidualsPlot_init named_regressor offset_estimator first_axes_kwargs two_axes_pyplot
              = (Inr v, two_axes_pyplot)
      \<and> ResidualsPlot_poof (v, two_axes_pyplot) = (Inr (Some 0), (v, w'))
      \<and> lines (axes w' 0) = [HLine 0 0 100]
      \<and> title (axes w' 0) = Some ''Residuals for OffsetRegressor Model''
      \<and> ylabel (axes w' 0) = Some ''Residuals''
      \<and> xlabel (axes w' 0) = None
      \<and> xlabel (axes w' 1) = Some ''Predicted Value''
      \<and> show_count w' = 1)
   \<and> (\<exists>v w w'. ResidualsPlot_draw [1, 2] [0, 1] False (rp_default, fresh_pyplot)
              = (Inr (Some 0), (v, w))
      \<and> current w = Some 0
      \<and> ResidualsPlot_poof (v, w\<lparr>n_axes := 2, current := Some 1\<rparr>) = (Inr (Some 0), (v, w'))
      \<and> length (marks (axes w' 0)) = 2
      \<and> lines (axes w' 0) = [HLine 0 0 100]
      \<and> title (axes w' 0) = Some ''Residuals for OffsetRegressor Model''
      \<and> ylabel (axes w' 0) = Some ''Residuals''
      \<and> xlabel (axes w' 0) = None
      \<and> xlabel (axes w' 1) = Some ''Predicted Value'')"
proof -
  let ?v = "\<lparr>estimator = offset_estimator, name = ''OffsetRegressor'', ax = Some 0,
             colors = [''train_point'' \<mapsto> ''#2B94E9'', ''test_point'' \<mapsto> ''#94BA65'',
                       ''line'' \<mapsto> ''#333333'']\<rparr> :: (int, int list, int) visualizer"
  let ?w1 = "snd (snd (ResidualsPlot_poof (?v, two_axes_pyplot)))"
  have init: "ResidualsPlot_init named_regressor offset_estimator first_axes_kwargs two_axes_pyplot
             = (Inr ?v, two_axes_pyplot)"
    by (simp add: RegressionScoreVisualizer_init_def ResidualsPlot_init_def
        ScoreVisualizer_init_def get_model_name_def returnE_def raiseE_def bindE_def
        named_regressor_def offset_estimator_def first_axes_kwargs_def kwargs_pop_def)
  have poof: "ResidualsPlot_poof (?v, two_axes_pyplot) = (Inr (Some 0), (?v, ?w1))"
    by (simp add: ResidualsPlot_poof_def monad_defs hlines_def set_title_def set_ylabel_def
        plt_xlabel_def plt_show_def gca_def two_axes_pyplot_def)
  have obs: "lines (axes ?w1 0) = [HLine 0 0 100]"
    "title (axes ?w1 0) = Some ''Residuals for OffsetRegressor Model''"
    "ylabel (axes ?w1 0) = Some ''Residuals''"
    "xlabel (axes ?w1 0) = None"
    "xlabel (axes ?w1 1) = Some ''Predicted Value''"
    "show_count ?w1 = 1"
    by (simp_all add: ResidualsPlot_poof_def monad_defs hlines_def set_title_def set_ylabel_def
        plt_xlabel_def plt_show_def gca_def two_axes_pyplot_def blank_surface_def)
  have first: "\<exists>v w'. ResidualsPlot_init named_regressor offset_estimator first_axes_kwargs two_axes_pyplot
              = (Inr v, two_axes_pyplot)
      \<and> ResidualsPlot_poof (v, two_axes_pyplot) = (Inr (Some 0), (v, w'))
      \<and> lines (axes w' 0) = [HLine 0 0 100]
      \<and> title (axes w' 0) = Some ''Residuals for OffsetRegressor Model''
      \<and> ylabel (axes w' 0) = Some ''Residuals''
      \<and> xlabel (axes w' 0) = None
      \<and> xlabel (axes w' 1) = Some ''Predicted Value''
      \<and> show_count w' = 1"
    by (rule exI[of _ ?v], rule exI[of _ ?w1]) (intro conjI init poof obs)
  let ?u = "rp_default\<lparr>ax := Some 0\<rparr>"
  let ?w = "(snd (gca fresh_pyplot))\<lparr>axes := (axes (snd (gca fresh_pyplot)))
              (0 := (axes (snd (gca fresh_pyplot)) 0)
                 \<lparr>marks := marks (axes (snd (gca fresh_pyplot)) 0) @
                    new_marks [1, 2] [0, 1] ''#94BA65'' (Some 40) (Some (if False then 1/2 else 1))\<rparr>)\<rparr>"
  let ?w2 = "snd (snd (ResidualsPlot_poof (?u, ?w\<lparr>n_axes := 2, current := Some 1\<rparr>)))"
  have g: "(0, snd (gca fresh_pyplot)) =
      (case ax rp_default of None \<Rightarrow> gca fresh_pyplot | Some a \<Rightarrow> (a, fresh_pyplot))"
    by (simp add: rp_default_def gca_def fresh_pyplot_def)
  have draw: "ResidualsPlot_draw [1, 2] [0, 1] False (rp_default, fresh_pyplot) = (Inr (Some 0), (?u, ?w))"
    by (rule ResidualsPlot_draw_result[OF _ _ g]) (simp_all add: rp_default_def)
  have cur: "current ?w = Some 0" by (simp add: gca_def fresh_pyplot_def)
  have poof2: "ResidualsPlot_poof (?u, ?w\<lparr>n_axes := 2, current := Some 1\<rparr>) = (Inr (Some 0), (?u, ?w2))"
    by (simp add: ResidualsPlot_poof_def monad_defs hlines_def set_title_def set_ylabel_def
        plt_xlabel_def plt_show_def gca_def fresh_pyplot_def rp_default_def)
  have obs2: "length (marks (axes ?w2 0)) = 2"
    "lines (axes ?w2 0) = [HLine 0 0 100]"
    "title (axes ?w2 0) = Some ''Residuals for OffsetRegressor Model''"
    "ylabel (axes ?w2 0) = Some ''Residuals''"
    "xlabel (axes ?w2 0) = None"
    "xlabel (axes ?w2 1) = Some ''Predicted Value''"
    by (simp_all add: ResidualsPlot_poof_def monad_defs hlines_def set_title_def set_ylabel_def
        plt_xlabel_def plt_show_def gca_def fresh_pyplot_def rp_default_def blank_surface_def
        new_marks_def)
  have second: "\<exists>v w w'. ResidualsPlot_draw [1, 2] [0, 1] False (rp_default, fresh_pyplot)
              = (Inr (Some 0), (v, w))
      \<and> current w = Some 0
      \<and> ResidualsPlot_poof (v, w\<lparr>n_axes := 2, current := Some 1\<rparr>) = (Inr (Some 0), (v, w'))
      \<and> length (marks (axes w' 0)) = 2
      \<and> lines (axes w' 0) = [HLine 0 0 100]
      \<and> title (axes w' 0) = Some ''Residuals for OffsetRegressor Model''
      \<and> ylabel (axes w' 0) = Some ''Residuals''
      \<and> xlabel (axes w' 0) = None
      \<and> xlabel (axes w' 1) = Some ''Predicted Value''"
    by (rule exI[of _ ?u], rule exI[of _ ?w], rule exI[of _ ?w2]) (intro conjI draw cur poof2 obs2)
  from first second show ?thesis by (rule conjI)
qed

text \<open>
  C5. When \<^verbatim>\<open>estimator.predict(X)\<close> returns a series \<open>p\<close> as long as \<open>y\<close>,
  \<^verbatim>\<open>ResidualsPlot.score(X, y, train)\<close> returns no value and has drawn, in the styling
  chosen by \<open>train\<close>, one mark per sample at (predicted, predicted minus actual); and
  \<^verbatim>\<open>PredictionError.score(X, y)\<close> returns the Surface and has drawn one mark per sample
  at (actual, predicted). \<open>rp\<close> is a \<^verbatim>\<open>ResidualsPlot\<close> and \<open>pe\<close> a
  \<^verbatim>\<open>PredictionError\<close> object; \<open>(r, w0)\<close> and \<open>(r', w0')\<close> are their Surfaces and
  the plotting states after the nullability test at the top of \<^verbatim>\<open>draw\<close>.
\<close>

theorem score_contracts:
  fixes y :: "'a::{linorder,minus,plus,one} list"
  assumes "est_predict (estimator rp) (est_model (estimator rp)) X = Inr p"
    and "est_predict (estimator pe) (est_model (estimator pe)) X = Inr q"
    and "length p = length y" and "length y = length q" and "1 \<le> length y"
    and "colors rp (if train then ''train_point'' else ''test_point'') = Some c"
    and "colors pe ''line'' = Some cl"
    and "(r, w0) = (case ax rp of None \<Rightarrow> gca w | Some a \<Rightarrow> (a, w))"
    and "(r', w0') = (case ax pe of None \<Rightarrow> gca w | Some a \<Rightarrow> (a, w))"
  shows "(\<exists>w'. ResidualsPlot_score X y train (rp, w) = (Inr None, (rp\<lparr>ax := Some r\<rparr>, w'))
           \<and> marks (axes w' r) = marks (axes w0 r) @
                new_marks p (map (\<lambda>(a, b). a - b) (zip p y)) c (Some 40)
                  (Some (if train then 1/2 else 1)))
       \<and> (\<exists>w'. PredictionError_score X y (pe, w) = (Inr (Some r'), (pe\<lparr>ax := Some r'\<rparr>, w'))
           \<and> marks (axes w' r') = marks (axes w0' r') @ new_marks y q ''#F2BE2C'' None None)"
proof -
  from assms(5) have ne: "y \<noteq> []" by auto
  show ?thesis
    by (simp add: ResidualsPlot_score_result[OF assms(1,3,6,8)]
        PredictionError_score_result[OF assms(2,4) ne assms(7,9)])
qed

theorem score_contracts_witness:
  "(\<exists>w'. ResidualsPlot_score [1, 2, 3] [1, 2, 4] False (rp_default, fresh_pyplot)
            = (Inr None, (rp_default\<lparr>ax := Some 0\<rparr>, w'))
        \<and> map (\<lambda>m. (mark_x m, mark_y m)) (marks (axes w' 0)) = [(1, 0), (2, 0), (3, -1)])
   \<and> (\<exists>w'. PredictionError_score [1, 2, 3] [1, 2, 4] (pe_default, fresh_pyplot)
            = (Inr (Some 0), (pe_default\<lparr>ax := Some 0\<rparr>, w'))
        \<and> map (\<lambda>m. (mark_x m, mark_y m)) (marks (axes w' 0)) = [(1, 1), (2, 2), (4, 3)])"
proof -
  have h1: "est_predict (estimator rp_default) (est_model (estimator rp_default)) [1, 2, 3] = Inr [1, 2, 3]"
    by (simp add: rp_default_def offset_estimator_def)
  have h2: "est_predict (estimator pe_default) (est_model (estimator pe_default)) [1, 2, 3] = Inr [1, 2, 3]"
    by (simp add: pe_default_def offset_estimator_def)
  have h3: "length [1, 2, 3::int] = length [1, 2, 4::int]" by simp
  have h4: "length [1, 2, 4::int] = length [1, 2, 3::int]" by simp
  have h5: "1 \<le> length [1, 2, 4::int]" by simp
  have h6: "colors rp_default (if False then ''train_point'' else ''test_point'') = Some ''#94BA65''"
    by (simp add: rp_default_def)
  have h7: "colors pe_default ''line'' = Some ''#2B94E9''" by (simp add: pe_default_def)
  have h8: "(0, snd (gca fresh_pyplot)) =
      (case ax rp_default of None \<Rightarrow> gca fresh_pyplot | Some a \<Rightarrow> (a, fresh_pyplot))"
    by (simp add: rp_default_def gca_def fresh_pyplot_def)
  have h9: "(0, snd (gca fresh_pyplot)) =
      (case ax pe_default of None \<Rightarrow> gca fresh_pyplot | Some a \<Rightarrow> (a, fresh_pyplot))"
    by (simp add: pe_default_def gca_def fresh_pyplot_def)
  from score_contracts[OF h1 h2 h3 h4 h5 h6 h7 h8 h9] obtain w1 w2 where
    w1: "ResidualsPlot_score [1, 2, 3] [1, 2, 4] False (rp_default, fresh_pyplot)
            = (Inr None, (rp_default\<lparr>ax := Some 0\<rparr>, w1))"
        "marks (axes w1 0) = marks (axes (snd (gca fresh_pyplot)) 0) @
                new_marks [1, 2, 3] (map (\<lambda>(a, b). a - b) (zip [1, 2, 3] [1, 2, 4])) ''#94BA65'' (Some 40)
                  (Some (if False then 1/2 else 1))"
    and w2: "PredictionError_score [1, 2, 3] [1, 2, 4] (pe_default, fresh_pyplot)
            = (Inr (Some 0), (pe_default\<lparr>ax := Some 0\<rparr>, w2))"
        "marks (axes w2 0) = marks (axes (snd (gca fresh_pyplot)) 0) @ new_marks [1, 2, 4] [1, 2, 3] ''#F2BE2C'' None None"
    by blast
  have a: "\<exists>w'. ResidualsPlot_score [1, 2, 3] [1, 2, 4] False (rp_default, fresh_pyplot)
            = (Inr None, (rp_default\<lparr>ax := Some 0\<rparr>, w'))
        \<and> map (\<lambda>m. (mark_x m, mark_y m)) (marks (axes w' 0)) = [(1, 0), (2, 0), (3, -1)]"
    by (rule exI[of _ w1], simp only: w1, simp add: gca_def fresh_pyplot_def blank_surface_def new_marks_def)
  have b: "\<exists>w'. PredictionError_score [1, 2, 3] [1, 2, 4] (pe_default, fresh_pyplot)
            = (Inr (Some 0), (pe_default\<lparr>ax := Some 0\<rparr>, w'))
        \<and> map (\<lambda>m. (mark_x m, mark_y m)) (marks (axes w' 0)) = [(1, 1), (2, 2), (4, 3)]"
    by (rule exI[of _ w2], simp only: w2, simp add: gca_def fresh_pyplot_def blank_surface_def new_marks_def)
  from a b show ?thesis by (rule conjI)
qed

text \<open>
  C6. \<^verbatim>\<open>ResidualsPlot.draw\<close> on two series of the same length returns the Surface and
  adds one mark per sample, each in the colour stored under \<^verbatim>\<open>'train_point'\<close> with
  opacity 0.5 when \<open>train\<close> is true, and in the colour stored under \<^verbatim>\<open>'test_point'\<close>
  with opacity 1.0 when it is false.
\<close>

theorem ResidualsPlot_draw_styles:
  assumes "length y_pred = length residuals"
    and "colors v ''train_point'' = Some ctrain" and "colors v ''test_point'' = Some ctest"
    and "(r, w0) = (case ax v of None \<Rightarrow> gca w | Some a \<Rightarrow> (a, w))"
  shows "\<exists>w'. ResidualsPlot_draw y_pred residuals train (v, w) = (Inr (Some r), (v\<lparr>ax := Some r\<rparr>, w'))
     \<and> marks (axes w' r) = marks (axes w0 r) @
          new_marks y_pred residuals (if train then ctrain else ctest) (Some 40)
            (Some (if train then 1/2 else 1))"
proof -
  have c: "colors v (if train then ''train_point'' else ''test_point'') = Some (if train then ctrain else ctest)"
    using assms(2,3) by simp
  show ?thesis by (simp add: ResidualsPlot_draw_result[OF assms(1) c assms(4)])
qed

theorem ResidualsPlot_draw_styles_witness:
  "\<exists>v w1 w2. ResidualsPlot_init named_regressor offset_estimator custom_kwargs fresh_pyplot
               = (Inr v, fresh_pyplot)
     \<and> ResidualsPlot_draw [1, 2] [0, 1] True (v, fresh_pyplot) = (Inr (Some 0), (v\<lparr>ax := Some 0\<rparr>, w1))
     \<and> map (\<lambda>m. (mark_c m, mark_alpha m)) (marks (axes w1 0))
         = [(''#FF0000'', Some (1/2)), (''#FF0000'', Some (1/2))]
     \<and> ResidualsPlot_draw [1, 2] [0, 1] False (v, fresh_pyplot) = (Inr (Some 0), (v\<lparr>ax := Some 0\<rparr>, w2))
     \<and> map (\<lambda>m. (mark_c m, mark_alpha m)) (marks (axes w2 0))
         = [(''#94BA65'', Some 1), (''#94BA65'', Some 1)]"
proof -
  let ?v = "\<lparr>estimator = offset_estimator, name = ''OffsetRegressor'', ax = None,
             colors = [''train_point'' \<mapsto> ''#FF0000'', ''test_point'' \<mapsto> ''#94BA65'',
                       ''line'' \<mapsto> ''#333333'']\<rparr> :: (int, int list, int) visualizer"
  have init: "ResidualsPlot_init named_regressor offset_estimator custom_kwargs fresh_pyplot
             = (Inr ?v, fresh_pyplot)"
    by (simp add: RegressionScoreVisualizer_init_def ResidualsPlot_init_def
        ScoreVisualizer_init_def get_model_name_def returnE_def raiseE_def bindE_def
        named_regressor_def offset_estimator_def custom_kwargs_def kwargs_pop_def)
  have h1: "length [1, 2::int] = length [0, 1::int]" by simp
  have h2: "colors ?v ''train_point'' = Some ''#FF0000''" by simp
  have h3: "colors ?v ''test_point'' = Some ''#94BA65''" by simp
  have h4: "(0, snd (gca fresh_pyplot)) =
      (case ax ?v of None \<Rightarrow> gca fresh_pyplot | Some a \<Rightarrow> (a, fresh_pyplot))"
    by (simp add: gca_def fresh_pyplot_def)
  from ResidualsPlot_draw_styles[OF h1 h2 h3 h4, of True] obtain w1 where
    w1: "ResidualsPlot_draw [1, 2] [0, 1] True (?v, fresh_pyplot) = (Inr (Some 0), (?v\<lparr>ax := Some 0\<rparr>, w1))"
        "marks (axes w1 0) = marks (axes (snd (gca fresh_pyplot)) 0) @
          new_marks [1, 2] [0, 1] (if True then ''#FF0000'' else ''#94BA65'') (Some 40) (Some (if True then 1/2 else 1))"
    by blast
  from ResidualsPlot_draw_styles[OF h1 h2 h3 h4, of False] obtain w2 where
    w2: "ResidualsPlot_draw [1, 2] [0, 1] False (?v, fresh_pyplot) = (Inr (Some 0), (?v\<lparr>ax := Some 0\<rparr>, w2))"
        "marks (axes w2 0) = marks (axes (snd (gca fresh_pyplot)) 0) @
          new_marks [1, 2] [0, 1] (if False then ''#FF0000'' else ''#94BA65'') (Some 40) (Some (if False then 1/2 else 1))"
    by blast
  have m1: "map (\<lambda>m. (mark_c m, mark_alpha m)) (marks (axes w1 0))
         = [(''#FF0000'', Some (1/2)), (''#FF0000'', Some (1/2))]"
    by (simp only: w1(2), simp add: gca_def fresh_pyplot_def blank_surface_def new_marks_def)
  have m2: "map (\<lambda>m. (mark_c m, mark_alpha m)) (marks (axes w2 0))
         = [(''#94BA65'', Some 1), (''#94BA65'', Some 1)]"
    by (simp only: w2(2), simp add: gca_def fresh_pyplot_def blank_surface_def new_marks_def)
  show ?thesis
    by (rule exI[of _ ?v], rule exI[of _ w1], rule exI[of _ w2]) (intro conjI init w1(1) m1 w2(1) m2)
qed

text \<open>
  C7. \<^verbatim>\<open>ResidualsPlot.poof\<close> on a visualizer that holds no Surface returns
  \<^verbatim>\<open>None\<close> without raising and changes neither the visualizer nor the plotting state:
  no title, no label, no display.
\<close>

theorem ResidualsPlot_poof_without_surface:
  "ax v = None \<Longrightarrow> ResidualsPlot_poof (v, w) = (Inr None, (v, w))"
  by (simp add: ResidualsPlot_poof_def monad_defs)

theorem ResidualsPlot_poof_without_surface_witness:
  "ResidualsPlot_poof (rp_default, fresh_pyplot) = (Inr None, (rp_default, fresh_pyplot))
   \<and> show_count (snd (snd (ResidualsPlot_poof (rp_default, fresh_pyplot)))) = 0"
proof -
  have h: "ax rp_default = None" by (simp add: rp_default_def)
  show ?thesis
    by (simp add: ResidualsPlot_poof_without_surface[OF h] fresh_pyplot_def)
qed

text \<open>
  C8. When training succeeds with the learned state \<open>m\<close> and the trained estimator
  predicts a series \<open>p\<close> as long as \<open>y\<close>, \<^verbatim>\<open>ResidualsPlot.fit(X, y)\<close> leaves the
  estimator trained and has drawn the residuals of the trained estimator, one mark per
  sample at (predicted, predicted minus actual), in the \<^verbatim>\<open>'train_point'\<close> colour with
  opacity 0.5. For every input, \<^verbatim>\<open>fit\<close> is the base \<^verbatim>\<open>fit\<close> followed, when that
  did not raise, by \<^verbatim>\<open>score(X, y, train=True)\<close>.
\<close>

theorem ResidualsPlot_fit_draws_training_residuals:
  fixes y :: "'a::minus list"
  assumes "est_fit (estimator v) (est_model (estimator v)) X y = Inr m"
    and "est_predict (estimator v) m X = Inr p"
    and "length p = length y"
    and "colors v ''train_point'' = Some c"
    and "(r, w0) = (case ax v of None \<Rightarrow> gca w | Some a \<Rightarrow> (a, w))"
  shows "(\<exists>w'. ResidualsPlot_fit X y (v, w) =
             (Inr None, (v\<lparr>estimator := (estimator v)\<lparr>est_model := m\<rparr>, ax := Some r\<rparr>, w'))
          \<and> marks (axes w' r) = marks (axes w0 r) @
               new_marks p (map (\<lambda>(a, b). a - b) (zip p y)) c (Some 40) (Some (1/2)))
       \<and> (\<forall>s. ResidualsPlot_fit X y s =
             (case ScoreVisualizer_fit X y s of
                (Inl e, s') \<Rightarrow> (Inl e, s')
              | (Inr u, s') \<Rightarrow> ResidualsPlot_score X y True s'))"
  by (simp add: ResidualsPlot_fit_result[OF assms] ResidualsPlot_fit_unfold[symmetric])

theorem ResidualsPlot_fit_draws_training_residuals_witness:
  "\<exists>w'. ResidualsPlot_fit [1, 2, 3] [3, 5, 4] (rp_default, fresh_pyplot) =
           (Inr None, (rp_default\<lparr>estimator := offset_estimator\<lparr>est_model := 3\<rparr>, ax := Some 0\<rparr>, w'))
     \<and> map (\<lambda>m. (mark_x m, mark_y m, mark_c m, mark_alpha m)) (marks (axes w' 0))
         = [(4, 1, ''#2B94E9'', Some (1/2)), (5, 0, ''#2B94E9'', Some (1/2)),
            (6, 2, ''#2B94E9'', Some (1/2))]"
proof -
  have h1: "est_fit (estimator rp_default) (est_model (estimator rp_default)) [1, 2, 3] [3, 5, 4] = Inr 3"
    by (simp add: rp_default_def offset_estimator_def)
  have h2: "est_predict (estimator rp_default) 3 [1, 2, 3] = Inr [4, 5, 6]"
    by (simp add: rp_default_def offset_estimator_def)
  have h3: "length [4, 5, 6::int] = length [3, 5, 4::int]" by simp
  have h4: "colors rp_default ''train_point'' = Some ''#2B94E9''" by (simp add: rp_default_def)
  have h5: "(0, snd (gca fresh_pyplot)) =
      (case ax rp_default of None \<Rightarrow> gca fresh_pyplot | Some a \<Rightarrow> (a, fresh_pyplot))"
    by (simp add: rp_default_def gca_def fresh_pyplot_def)
  have e: "estimator rp_default = offset_estimator" by (simp add: rp_default_def)
  from ResidualsPlot_fit_draws_training_residuals[OF h1 h2 h3 h4 h5] obtain w' where
    w: "ResidualsPlot_fit [1, 2, 3] [3, 5, 4] (rp_default, fresh_pyplot) =
             (Inr None, (rp_default\<lparr>estimator := (estimator rp_default)\<lparr>est_model := 3\<rparr>, ax := Some 0\<rparr>, w'))"
       "marks (axes w' 0) = marks (axes (snd (gca fresh_pyplot)) 0) @
               new_marks [4, 5, 6] (map (\<lambda>(a, b). a - b) (zip [4, 5, 6] [3, 5, 4])) ''#2B94E9'' (Some 40) (Some (1/2))"
    by blast
  show ?thesis
    by (rule exI[of _ w'], simp only: w e, simp add: gca_def fresh_pyplot_def blank_surface_def new_marks_def)
qed

text \<open>
  C9. A visualizer acquires its Surface at most once. Once \<^verbatim>\<open>self.ax\<close> holds a
  reference, it holds the same reference after any sequence of method calls, whether they
  return or raise, on a \<^verbatim>\<open>PredictionError\<close> as on a \<^verbatim>\<open>ResidualsPlot\<close>, and
  \<^verbatim>\<open>draw\<close> then creates no Axes object and leaves the current Axes alone. While
  \<^verbatim>\<open>self.ax\<close> is \<^verbatim>\<open>None\<close>, \<^verbatim>\<open>draw\<close> stores the reference that
  \<^verbatim>\<open>plt.gca()\<close> returns.
\<close>

theorem surface_acquired_at_most_once:
  fixes w :: "'a::{ord,minus,plus,one} pyplot"
  shows
  "(ax v = Some r \<longrightarrow>
      ax (fst (PredictionError_lifetime pe_calls (v, w))) = Some r
    \<and> ax (fst (ResidualsPlot_lifetime rp_calls (v, w))) = Some r
    \<and> n_axes (snd (snd (PredictionError_draw y y_pred (v, w)))) = n_axes w
    \<and> current (snd (snd (PredictionError_draw y y_pred (v, w)))) = current w
    \<and> n_axes (snd (snd (ResidualsPlot_draw y y_pred train (v, w)))) = n_axes w
    \<and> current (snd (snd (ResidualsPlot_draw y y_pred train (v, w)))) = current w)
   \<and> (ax v = None \<longrightarrow>
      ax (fst (snd (PredictionError_draw y y_pred (v, w)))) = Some (fst (gca w))
    \<and> ax (fst (snd (ResidualsPlot_draw y y_pred train (v, w)))) = Some (fst (gca w)))"
  using PredictionError_lifetime_keeps_ax[of "(v, w)" r pe_calls]
    ResidualsPlot_lifetime_keeps_ax[of "(v, w)" r rp_calls]
    PredictionError_draw_keeps_axes[of "(v, w)" r "n_axes w" "current w" y y_pred]
    ResidualsPlot_draw_keeps_axes[of "(v, w)" r "n_axes w" "current w" y y_pred train]
    PredictionError_draw_acquires[of v y y_pred w]
    ResidualsPlot_draw_acquires[of v y y_pred train w]
  by simp

theorem surface_acquired_at_most_once_witness:
  "ax (fst (snd (PredictionError_draw [1, 2] [1, 3] (pe_default, fresh_pyplot)))) = Some 0
   \<and> ax (fst (PredictionError_lifetime
        [PE_poof, PE_draw [4, 5, 6] [4, 5], PE_score [7, 8] [7, 9], PE_fit [1] [2], PE_draw [] [], PE_poof]
        (snd (PredictionError_draw [1, 2] [1, 3] (pe_default, fresh_pyplot))))) = Some 0
   \<and> ax (fst (snd (ResidualsPlot_draw [1, 2] [0, 1] False (rp_default, fresh_pyplot)))) = Some 0
   \<and> ax (fst (ResidualsPlot_lifetime
        [RP_poof, RP_fit [1, 2] [3, 4], RP_score [1, 2] [1] False, RP_draw [1] [] True, RP_poof]
        (snd (ResidualsPlot_draw [1, 2] [0, 1] False (rp_default, fresh_pyplot))))) = Some 0"
proof -
  have n1: "ax pe_default = None" by (simp add: pe_default_def)
  have n2: "ax rp_default = None" by (simp add: rp_default_def)
  have g: "fst (gca fresh_pyplot) = 0" by (simp add: gca_def fresh_pyplot_def)
  let ?s1 = "snd (PredictionError_draw [1, 2] [1, 3] (pe_default, fresh_pyplot))"
  let ?s2 = "snd (ResidualsPlot_draw [1, 2] [0, 1] False (rp_default, fresh_pyplot))"
  have a1: "ax (fst ?s1) = Some 0"
    using surface_acquired_at_most_once[of pe_default _ _ fresh_pyplot _ "[1, 2]" "[1, 3]"] n1 g
    by simp
  have a2: "ax (fst ?s2) = Some 0"
    using surface_acquired_at_most_once[of rp_default _ _ fresh_pyplot _ "[1, 2]" "[0, 1]" False] n2 g
    by simp
  have b1: "ax (fst (PredictionError_lifetime
        [PE_poof, PE_draw [4, 5, 6] [4, 5], PE_score [7, 8] [7, 9], PE_fit [1] [2], PE_draw [] [], PE_poof]
        ?s1)) = Some 0"
    using surface_acquired_at_most_once[of "fst ?s1" 0
        "[PE_poof, PE_draw [4, 5, 6] [4, 5], PE_score [7, 8] [7, 9], PE_fit [1] [2], PE_draw [] [], PE_poof]"
        "snd ?s1"] a1
    by simp
  have b2: "ax (fst (ResidualsPlot_lifetime
        [RP_poof, RP_fit [1, 2] [3, 4], RP_score [1, 2] [1] False, RP_draw [1] [] True, RP_poof]
        ?s2)) = Some 0"
    using surface_acquired_at_most_once[of "fst ?s2" 0 _ "snd ?s2"
        "[RP_poof, RP_fit [1, 2] [3, 4], RP_score [1, 2] [1] False, RP_draw [1] [] True, RP_poof]"] a2
    by simp
  from a1 b1 a2 b2 show ?thesis by (intro conjI)
qed

text \<open>
  C10. \<^verbatim>\<open>PredictionError.poof\<close> on a visualizer that holds no Surface is not a
  no-op: its first statement looks \<^verbatim>\<open>set_title\<close> up on \<^verbatim>\<open>None\<close> and raises, with
  nothing changed, where \<^verbatim>\<open>ResidualsPlot.poof\<close> tests for \<^verbatim>\<open>None\<close> and returns.
\<close>

theorem PredictionError_poof_without_surface:
  "ax v = None \<Longrightarrow>
     PredictionError_poof (v, w) = (Inl (AttributeError ''set_title''), (v, w))
   \<and> ResidualsPlot_poof (v, w) = (Inr None, (v, w))"
  by (simp add: PredictionError_poof_def ResidualsPlot_poof_def monad_defs)

theorem PredictionError_poof_without_surface_witness:
  "PredictionError_poof (pe_default, fresh_pyplot)
     = (Inl (AttributeError ''set_title''), (pe_default, fresh_pyplot))
   \<and> ResidualsPlot_poof (rp_default, fresh_pyplot) = (Inr None, (rp_default, fresh_pyplot))"
proof -
  have h1: "ax pe_default = None" by (simp add: pe_default_def)
  have h2: "ax rp_default = None" by (simp add: rp_default_def)
  from PredictionError_poof_without_surface[OF h1, of fresh_pyplot]
       PredictionError_poof_without_surface[OF h2, of fresh_pyplot]
  show ?thesis by simp
qed

end
